theory Spec2Isabelle
  imports Main "HOL-Library.Word"
begin

section \<open>Strings\<close>

text \<open>
  A TypeScript string is a sequence of UTF-16 code units. The regular expressions of
  \<^verbatim>\<open>sanitizeFilename\<close> carry no \<^verbatim>\<open>u\<close> flag, so they work code unit by code unit,
  and so does \<^verbatim>\<open>String.prototype.trim\<close>. Text in the Latin-1 range is written as an
  Isabelle string and embedded with \<open>js\<close>.
\<close>

type_synonym code_unit = "16 word"
type_synonym jsstring = "code_unit list"

definition js :: "string \<Rightarrow> jsstring" where
  "js s = map of_char s"

text \<open>
  The class \<^verbatim>\<open>\s\<close> (WhiteSpace and LineTerminator of ECMAScript); \<^verbatim>\<open>trim\<close> strips
  the same code units.
\<close>

definition isWhiteSpace :: "code_unit \<Rightarrow> bool" where
  "isWhiteSpace c \<longleftrightarrow>
     c \<in> {0x09, 0x0A, 0x0B, 0x0C, 0x0D, 0x20, 0xA0, 0x1680,
          0x2028, 0x2029, 0x202F, 0x205F, 0x3000, 0xFEFF}
     \<or> (0x2000 \<le> c \<and> c \<le> 0x200A)"

text \<open>
  \<^verbatim>\<open>[a-z]\<close> under the flag \<^verbatim>\<open>i\<close>: without \<^verbatim>\<open>u\<close>, case folding never maps a code unit
  above 127 to one below 128, so the range matches the 52 ASCII letters and nothing else.
\<close>

definition isAsciiLetter :: "code_unit \<Rightarrow> bool" where
  "isAsciiLetter c \<longleftrightarrow> (0x61 \<le> c \<and> c \<le> 0x7A) \<or> (0x41 \<le> c \<and> c \<le> 0x5A)"

definition isAsciiDigit :: "code_unit \<Rightarrow> bool" where
  "isAsciiDigit c \<longleftrightarrow> 0x30 \<le> c \<and> c \<le> 0x39"

definition hyphen :: code_unit where
  "hyphen = 0x2D"

definition underscore :: code_unit where
  "underscore = 0x5F"

text \<open>The characters of the class \<^verbatim>\<open>[a-z0-9\s-]\<close> with flag \<^verbatim>\<open>i\<close>.\<close>

definition inSanitizerClass :: "code_unit \<Rightarrow> bool" where
  "inSanitizerClass c \<longleftrightarrow>
     isAsciiLetter c \<or> isAsciiDigit c \<or> isWhiteSpace c \<or> c = hyphen"

text \<open>\<^verbatim>\<open>String.prototype.trim\<close>.\<close>

definition trim :: "jsstring \<Rightarrow> jsstring" where
  "trim s = rev (dropWhile isWhiteSpace (rev (dropWhile isWhiteSpace s)))"

section \<open>sanitizeFilename\<close>

text \<open>
  \<^verbatim>\<open>name.replace(/[^a-z0-9\s-]/gi, '')\<close>: the scan visits every position; a code unit
  outside the class is a match and is replaced by the empty string, any other is copied.
\<close>

fun removeDisallowed :: "jsstring \<Rightarrow> jsstring" where
  "removeDisallowed [] = []"
| "removeDisallowed (c # cs) =
     (if inSanitizerClass c then c # removeDisallowed cs else removeDisallowed cs)"

text \<open>
  \<^verbatim>\<open>.replace(/\s+/g, '_')\<close>: at a whitespace code unit the greedy \<^verbatim>\<open>\s+\<close> consumes the
  whole run that starts there, one underscore is emitted, and the scan goes on behind
  the run.
\<close>

function replaceWhitespaceRuns :: "jsstring \<Rightarrow> jsstring" where
  "replaceWhitespaceRuns [] = []"
| "replaceWhitespaceRuns (c # cs) =
     (if isWhiteSpace c
      then underscore # replaceWhitespaceRuns (dropWhile isWhiteSpace cs)
      else c # replaceWhitespaceRuns cs)"
  by pat_completeness auto
termination
  by (relation "measure length") (auto simp: le_imp_less_Suc length_dropWhile_le)

definition csvExtension :: jsstring where
  "csvExtension = js ''.csv''"

definition sanitizeFilename :: "jsstring \<Rightarrow> jsstring" where
  "sanitizeFilename name =
     trim (replaceWhitespaceRuns (removeDisallowed name)) @ csvExtension"

subsection \<open>The sanitizer in the words of the specification\<close>

text \<open>
  Step 2 of the specification, "replace every run of one-or-more whitespace characters
  with a single underscore", written without reference to a scan: a whitespace
  character that is followed by another one contributes nothing, the last one of a run
  contributes the underscore.
\<close>

fun collapseWhitespaceRuns :: "jsstring \<Rightarrow> jsstring" where
  "collapseWhitespaceRuns [] = []"
| "collapseWhitespaceRuns [c] = [if isWhiteSpace c then underscore else c]"
| "collapseWhitespaceRuns (c # d # cs) =
     (if isWhiteSpace c \<and> isWhiteSpace d then collapseWhitespaceRuns (d # cs)
      else (if isWhiteSpace c then underscore else c) # collapseWhitespaceRuns (d # cs))"

definition sanitizeFilename_spec :: "jsstring \<Rightarrow> jsstring" where
  "sanitizeFilename_spec name =
     trim (collapseWhitespaceRuns (filter inSanitizerClass name)) @ js ''.csv''"

text \<open>The base of a generated file name: the name without its trailing \<^verbatim>\<open>.csv\<close>.\<close>

definition sanitizeFilename_base :: "jsstring \<Rightarrow> jsstring" where
  "sanitizeFilename_base s =
     (if length csvExtension \<le> length s \<and> drop (length s - length csvExtension) s = csvExtension
      then take (length s - length csvExtension) s else s)"

text \<open>The group key of scenario 5, \<^verbatim>\<open>Caf\<close> + U+00E9 + \<^verbatim>\<open> & Cia!\<close>.\<close>

definition cafeKey :: jsstring where
  "cafeKey = js ''Caf'' @ [0xE9] @ js '' & Cia!''"

section \<open>Rows, parse results and files\<close>

text \<open>
  The CSV parser is an external collaborator. With \<^verbatim>\<open>header: true\<close> it hands over one
  plain object per line, with one own property per header, from header to cell text;
  reading an absent key gives \<^verbatim>\<open>undefined\<close>. A parse error carries a row index (absent
  for errors that belong to no row) and a message.
\<close>

type_synonym row = "(jsstring \<times> jsstring) list"

record parse_error =
  row :: "nat option"
  message :: jsstring

record parse_result =
  data :: "row list"
  errors :: "parse_error list"

text \<open>
  What a \<^verbatim>\<open>throw\<close> or a rejected promise carries: an \<^verbatim>\<open>Error\<close> with its message, the
  \<^verbatim>\<open>TypeError\<close> the engine raises when a value that is not a function is called (its text
  is the engine's), or a value that is no \<^verbatim>\<open>Error\<close> at all (the event of
  \<^verbatim>\<open>reader.onerror\<close>).
\<close>

datatype thrown = Error jsstring | TypeError | NonError

datatype parse_outcome = Resolved parse_result | Rejected thrown

record js_file =
  name :: jsstring
  type :: jsstring

record generated_file =
  filename :: jsstring
  content :: jsstring

text \<open>Key existence: what \<^verbatim>\<open>Object.prototype.hasOwnProperty\<close> computes on a row.\<close>

definition ownKey :: "row \<Rightarrow> jsstring \<Rightarrow> bool" where
  "ownKey r k \<longleftrightarrow> map_of r k \<noteq> None"

text \<open>
  The call \<^verbatim>\<open>firstRow.hasOwnProperty(name)\<close> looks the method up on the row itself. A
  row with a column named \<^verbatim>\<open>hasOwnProperty\<close> has the cell text there, a string, and
  calling it throws; any other row inherits the method.
\<close>

definition hasOwnProperty :: "row \<Rightarrow> jsstring \<Rightarrow> thrown + bool" where
  "hasOwnProperty r k =
     (case map_of r (js ''hasOwnProperty'') of
        Some _ \<Rightarrow> Inl TypeError
      | None \<Rightarrow> Inr (ownKey r k))"

section \<open>Grouping column\<close>

definition possibleColumnNames :: "jsstring list" where
  "possibleColumnNames =
     [js ''Nome da operadora:'', js ''Nome do restaurante:'', js ''Nome da empresa:'']"

text \<open>
  \<^verbatim>\<open>names.find(name => firstRow.hasOwnProperty(name))\<close>: the names are tried in order, and
  what the callback throws leaves \<^verbatim>\<open>find\<close>.
\<close>

fun findName :: "row \<Rightarrow> jsstring list \<Rightarrow> thrown + jsstring option" where
  "findName firstRow [] = Inr None"
| "findName firstRow (n # ns) =
     (case hasOwnProperty firstRow n of
        Inl e \<Rightarrow> Inl e
      | Inr found \<Rightarrow> if found then Inr (Some n) else findName firstRow ns)"

definition findGroupingColumn :: "row list \<Rightarrow> thrown + jsstring option" where
  "findGroupingColumn rows =
     (case rows of
        [] \<Rightarrow> Inr None
      | firstRow # _ \<Rightarrow> findName firstRow possibleColumnNames)"

text \<open>\<^verbatim>\<open>Array.prototype.join\<close>.\<close>

fun join :: "jsstring \<Rightarrow> jsstring list \<Rightarrow> jsstring" where
  "join sep [] = []"
| "join sep [x] = x"
| "join sep (x # y # ys) = x @ sep @ join sep (y # ys)"

definition apostrophe :: code_unit where
  "apostrophe = 0x27"

definition expectedColumnsString :: jsstring where
  "expectedColumnsString =
     join (js '', '') (map (\<lambda>n. [apostrophe] @ n @ [apostrophe]) possibleColumnNames)"

definition missingColumnMessage :: jsstring where
  "missingColumnMessage =
     js ''CSV must contain one of the following columns: '' @ expectedColumnsString"

text \<open>Lines 105 to 110: the column is looked up again and its absence is thrown.\<close>

definition requireGroupingColumn :: "row list \<Rightarrow> thrown + jsstring" where
  "requireGroupingColumn rows =
     (case findGroupingColumn rows of
        Inl e \<Rightarrow> Inl e
      | Inr None \<Rightarrow> Inl (Error missingColumnMessage)
      | Inr (Some groupingColumnName) \<Rightarrow> Inr groupingColumnName)"

section \<open>Encoding fallback\<close>

definition utf8 :: jsstring where
  "utf8 = js ''UTF-8''"

definition latin1 :: jsstring where
  "latin1 = js ''ISO-8859-1''"

text \<open>
  \<^verbatim>\<open>parseWithEncoding\<close> reads the file and runs the parser, both external: it is a
  parameter, from the file and the encoding label to the outcome of the promise. The
  calls made are returned with the result. The inner \<^verbatim>\<open>catch\<close> takes whatever the inner
  \<^verbatim>\<open>try\<close> throws: a rejected promise, what \<^verbatim>\<open>findGroupingColumn\<close> throws, and the two
  errors thrown by the guards.
\<close>

definition fallbackParse ::
  "(js_file \<Rightarrow> jsstring \<Rightarrow> parse_outcome) \<Rightarrow> js_file \<Rightarrow>
   (js_file \<times> jsstring) list \<times> (thrown + parse_result)" where
  "fallbackParse parseWithEncoding f =
     ([(f, utf8), (f, latin1)],
      case parseWithEncoding f latin1 of
        Rejected e \<Rightarrow> Inl e
      | Resolved results \<Rightarrow> Inr results)"

definition selectResults ::
  "(js_file \<Rightarrow> jsstring \<Rightarrow> parse_outcome) \<Rightarrow> js_file \<Rightarrow>
   (js_file \<times> jsstring) list \<times> (thrown + parse_result)" where
  "selectResults parseWithEncoding f =
     (case parseWithEncoding f utf8 of
        Rejected e \<Rightarrow> fallbackParse parseWithEncoding f
      | Resolved results \<Rightarrow>
          (case findGroupingColumn (data results) of
             Inl e \<Rightarrow> fallbackParse parseWithEncoding f
           | Inr column \<Rightarrow>
               (let groupingColumnFound = (column \<noteq> None) in
                if \<not> groupingColumnFound \<and> length (data results) > 0
                then fallbackParse parseWithEncoding f
                else if length (errors results) > 0 \<and> length (data results) = 0
                then fallbackParse parseWithEncoding f
                else ([(f, utf8)], Inr results))))"

section \<open>Parse errors of the chosen result\<close>

text \<open>
  A row index in a template literal: \<^verbatim>\<open>undefined\<close> prints as that word, a number in
  decimal (row indices are array positions, far below the magnitude where a number
  prints with an exponent).
\<close>

fun numberToString :: "nat \<Rightarrow> jsstring" where
  "numberToString n =
     (if n < 10 then [0x30 + of_nat n]
      else numberToString (n div 10) @ [0x30 + of_nat (n mod 10)])"

declare numberToString.simps [simp del]

definition rowToString :: "nat option \<Rightarrow> jsstring" where
  "rowToString r = (case r of None \<Rightarrow> js ''undefined'' | Some n \<Rightarrow> numberToString n)"

definition parseErrorMessage :: "parse_error \<Rightarrow> jsstring" where
  "parseErrorMessage firstError =
     js ''Error parsing CSV file on line '' @ rowToString (row firstError) @ js '': ''
       @ message firstError @ js ''. Please check the file format.''"

section \<open>Grouping\<close>

text \<open>
  The accumulator of \<^verbatim>\<open>reduce\<close> is an object literal. Its own properties are kept in
  creation order. Reading \<^verbatim>\<open>acc[groupName]\<close> finds an own property, or else a property
  of \<^verbatim>\<open>Object.prototype\<close> (a function, or the prototype itself for \<^verbatim>\<open>__proto__\<close>:
  truthy and without \<^verbatim>\<open>push\<close>), or else \<^verbatim>\<open>undefined\<close>.
\<close>

type_synonym groups_object = "(jsstring \<times> row list) list"

definition objectPrototypeKeys :: "jsstring list" where
  "objectPrototypeKeys =
     [js ''constructor'', js ''__defineGetter__'', js ''__defineSetter__'',
      js ''hasOwnProperty'', js ''__lookupGetter__'', js ''__lookupSetter__'',
      js ''isPrototypeOf'', js ''propertyIsEnumerable'', js ''toString'', js ''valueOf'',
      js ''__proto__'', js ''toLocaleString'']"

datatype property_value = OwnArray "row list" | Inherited | Undefined

definition getProperty :: "groups_object \<Rightarrow> jsstring \<Rightarrow> property_value" where
  "getProperty acc k =
     (case map_of acc k of
        Some rows \<Rightarrow> OwnArray rows
      | None \<Rightarrow> if k \<in> set objectPrototypeKeys then Inherited else Undefined)"

text \<open>\<^verbatim>\<open>acc[groupName].push(row)\<close> on an own array.\<close>

definition pushRow :: "jsstring \<Rightarrow> row \<Rightarrow> groups_object \<Rightarrow> groups_object" where
  "pushRow k r acc = map (\<lambda>(k', rows). if k' = k then (k', rows @ [r]) else (k', rows)) acc"

text \<open>
  The callback of \<^verbatim>\<open>reduce\<close>. An absent cell is \<^verbatim>\<open>undefined\<close> and stays so through
  \<^verbatim>\<open>?.trim()\<close>; it is falsy, as the empty string is.
\<close>

definition reducer :: "jsstring \<Rightarrow> groups_object \<Rightarrow> row \<Rightarrow> thrown + groups_object" where
  "reducer groupingColumnName acc r =
     (case map_of r groupingColumnName of
        None \<Rightarrow> Inr acc
      | Some v \<Rightarrow>
          (let groupName = trim v in
           if groupName = [] then Inr acc
           else
             (let acc1 = (if getProperty acc groupName = Undefined
                          then acc @ [(groupName, [])] else acc)
              in case getProperty acc1 groupName of
                   OwnArray _ \<Rightarrow> Inr (pushRow groupName r acc1)
                 | Inherited \<Rightarrow> Inl TypeError
                 | Undefined \<Rightarrow> Inl TypeError)))"

fun reduceRows :: "jsstring \<Rightarrow> groups_object \<Rightarrow> row list \<Rightarrow> thrown + groups_object" where
  "reduceRows groupingColumnName acc [] = Inr acc"
| "reduceRows groupingColumnName acc (r # rs) =
     (case reducer groupingColumnName acc r of
        Inl e \<Rightarrow> Inl e
      | Inr acc' \<Rightarrow> reduceRows groupingColumnName acc' rs)"

definition groupedByValue :: "jsstring \<Rightarrow> row list \<Rightarrow> thrown + groups_object" where
  "groupedByValue groupingColumnName rows = reduceRows groupingColumnName [] rows"

text \<open>
  \<^verbatim>\<open>Object.entries\<close> lists the own properties in the order of the language: first the
  keys that are array indices (canonical decimal numerals up to \<open>2\<^sup>3\<^sup>2 - 2\<close>), by
  ascending value, then all other keys in creation order.
\<close>

definition digitValue :: "code_unit \<Rightarrow> nat" where
  "digitValue c = unat c - 48"

definition decimalValue :: "jsstring \<Rightarrow> nat" where
  "decimalValue s = foldl (\<lambda>n c. 10 * n + digitValue c) 0 s"

definition isArrayIndex :: "jsstring \<Rightarrow> bool" where
  "isArrayIndex s \<longleftrightarrow>
     s \<noteq> [] \<and> list_all isAsciiDigit s \<and> (length s = 1 \<or> hd s \<noteq> 0x30)
     \<and> decimalValue s < 2 ^ 32 - 1"

definition objectEntries :: "groups_object \<Rightarrow> (jsstring \<times> row list) list" where
  "objectEntries obj =
     sort_key (\<lambda>e. decimalValue (fst e)) (filter (\<lambda>e. isArrayIndex (fst e)) obj)
     @ filter (\<lambda>e. \<not> isArrayIndex (fst e)) obj"

text \<open>Lines 112 to 123: the groups in the order in which the files are made.\<close>

definition groupEntries :: "jsstring \<Rightarrow> row list \<Rightarrow> thrown + (jsstring \<times> row list) list" where
  "groupEntries groupingColumnName rows =
     (case groupedByValue groupingColumnName rows of
        Inl e \<Rightarrow> Inl e
      | Inr acc \<Rightarrow> Inr (objectEntries acc))"

section \<open>The pipeline\<close>

text \<open>The serializer \<^verbatim>\<open>Papa.unparse\<close> is external and a parameter.\<close>

definition makeFiles ::
  "(row list \<Rightarrow> jsstring) \<Rightarrow> (jsstring \<times> row list) list \<Rightarrow> generated_file list" where
  "makeFiles unparse entries =
     map (\<lambda>(groupName, rows).
            \<lparr>filename = sanitizeFilename groupName, content = unparse rows\<rparr>) entries"

text \<open>Lines 105 to 129.\<close>

definition splitRows :: "(row list \<Rightarrow> jsstring) \<Rightarrow> row list \<Rightarrow> thrown + generated_file list" where
  "splitRows unparse rows =
     (case requireGroupingColumn rows of
        Inl e \<Rightarrow> Inl e
      | Inr groupingColumnName \<Rightarrow>
          (case groupEntries groupingColumnName rows of
             Inl e \<Rightarrow> Inl e
           | Inr entries \<Rightarrow> Inr (makeFiles unparse entries)))"

text \<open>Lines 96 to 129: what is done with the chosen parse result.\<close>

definition processResults ::
  "(row list \<Rightarrow> jsstring) \<Rightarrow> parse_result \<Rightarrow> thrown + generated_file list" where
  "processResults unparse results =
     (case errors results of
        [] \<Rightarrow> splitRows unparse (data results)
      | firstError # _ \<Rightarrow>
          if length (data results) > 0 then splitRows unparse (data results)
          else Inl (Error (parseErrorMessage firstError)))"

text \<open>The body of the outer \<^verbatim>\<open>try\<close>.\<close>

definition pipeline ::
  "(js_file \<Rightarrow> jsstring \<Rightarrow> parse_outcome) \<Rightarrow> (row list \<Rightarrow> jsstring) \<Rightarrow> js_file \<Rightarrow>
   thrown + generated_file list" where
  "pipeline parseWithEncoding unparse f =
     (case snd (selectResults parseWithEncoding f) of
        Inl e \<Rightarrow> Inl e
      | Inr results \<Rightarrow> processResults unparse results)"

section \<open>Component state\<close>

record app_state =
  sourceFile :: "js_file option"
  generatedFiles :: "generated_file list"
  isLoading :: bool
  isZipping :: bool
  error :: "jsstring option"

text \<open>
  \<^verbatim>\<open>toLowerCase\<close> on the ASCII letters. The test \<^verbatim>\<open>endsWith('.csv')\<close> looks at the last
  four code units, and no character outside ASCII has a lower case that ends in one of
  \<^verbatim>\<open>.\<close>, \<^verbatim>\<open>c\<close>, \<^verbatim>\<open>s\<close>, \<^verbatim>\<open>v\<close>, so the test has the value it has under the full mapping.
\<close>

definition toLowerCase :: "jsstring \<Rightarrow> jsstring" where
  "toLowerCase s = map (\<lambda>c. if 0x41 \<le> c \<and> c \<le> 0x5A then c + 0x20 else c) s"

definition endsWith :: "jsstring \<Rightarrow> jsstring \<Rightarrow> bool" where
  "endsWith s suffix \<longleftrightarrow>
     length suffix \<le> length s \<and> drop (length s - length suffix) s = suffix"

definition invalidFileTypeMessage :: jsstring where
  "invalidFileTypeMessage = js ''Invalid file type. Please upload a CSV file.''"

definition handleFileSelect :: "js_file \<Rightarrow> app_state \<Rightarrow> app_state" where
  "handleFileSelect f s =
     (if type f \<noteq> js ''text/csv'' \<and> \<not> endsWith (toLowerCase (name f)) (js ''.csv'')
      then s\<lparr>error := Some invalidFileTypeMessage, sourceFile := None\<rparr>
      else s\<lparr>error := None, generatedFiles := [], sourceFile := Some f\<rparr>)"

definition clearFile :: "app_state \<Rightarrow> app_state" where
  "clearFile s = s\<lparr>sourceFile := None, generatedFiles := [], error := None\<rparr>"

text \<open>
  \<^verbatim>\<open>err instanceof Error ? err.message : 'An unknown error occurred.'\<close>; the text of the
  engine's \<^verbatim>\<open>TypeError\<close> is a parameter.
\<close>

definition errorMessage :: "jsstring \<Rightarrow> thrown \<Rightarrow> jsstring" where
  "errorMessage typeErrorText err =
     (case err of
        Error m \<Rightarrow> m
      | TypeError \<Rightarrow> typeErrorText
      | NonError \<Rightarrow> js ''An unknown error occurred.'')"

definition processCsvFile ::
  "(js_file \<Rightarrow> jsstring \<Rightarrow> parse_outcome) \<Rightarrow> (row list \<Rightarrow> jsstring) \<Rightarrow> jsstring \<Rightarrow>
   app_state \<Rightarrow> app_state" where
  "processCsvFile parseWithEncoding unparse typeErrorText s =
     (case sourceFile s of
        None \<Rightarrow> s\<lparr>error := Some (js ''Please select a file to process.'')\<rparr>
      | Some f \<Rightarrow>
          (let s1 = s\<lparr>isLoading := True, error := None, generatedFiles := []\<rparr>;
               s2 = (case pipeline parseWithEncoding unparse f of
                       Inr files \<Rightarrow> s1\<lparr>generatedFiles := files\<rparr>
                     | Inl err \<Rightarrow> s1\<lparr>error := Some (errorMessage typeErrorText err)\<rparr>)
           in s2\<lparr>isLoading := False\<rparr>))"

text \<open>
  The archive library and the download through the document are external; all that
  matters to the state is whether the \<^verbatim>\<open>try\<close> block of \<^verbatim>\<open>downloadAllAsZip\<close> throws.
\<close>

datatype zip_outcome = ZipDownloaded | ZipThrows

definition zipErrorMessage :: jsstring where
  "zipErrorMessage =
     js ''Could not create the ZIP file. Please try downloading files individually.''"

definition downloadAllAsZip :: "zip_outcome \<Rightarrow> app_state \<Rightarrow> app_state" where
  "downloadAllAsZip outcome s =
     (if length (generatedFiles s) = 0 then s
      else
        (let s1 = s\<lparr>isZipping := True\<rparr>;
             s2 = (case outcome of
                     ZipDownloaded \<Rightarrow> s1
                   | ZipThrows \<Rightarrow> s1\<lparr>error := Some zipErrorMessage\<rparr>)
         in s2\<lparr>isZipping := False\<rparr>))"

section \<open>The partition in the words of the specification\<close>

text \<open>
  The group key of a row: the trimmed value at the grouping column, when the column is
  present in the row and the trimmed value is not empty.
\<close>

definition groupKey :: "jsstring \<Rightarrow> row \<Rightarrow> jsstring option" where
  "groupKey col r =
     (case map_of r col of
        None \<Rightarrow> None
      | Some v \<Rightarrow> if trim v = [] then None else Some (trim v))"

definition groupKeys :: "jsstring \<Rightarrow> row list \<Rightarrow> jsstring list" where
  "groupKeys col rows = List.map_filter (groupKey col) rows"

fun firstOccurrences :: "'a list \<Rightarrow> 'a list" where
  "firstOccurrences [] = []"
| "firstOccurrences (x # xs) = x # firstOccurrences (filter (\<lambda>y. y \<noteq> x) xs)"

definition rowsOfGroup :: "jsstring \<Rightarrow> jsstring \<Rightarrow> row list \<Rightarrow> row list" where
  "rowsOfGroup col k rows = filter (\<lambda>r. groupKey col r = Some k) rows"

text \<open>
  Groups in first-occurrence order of their key, each with its rows in original order.
\<close>

definition partition_spec :: "jsstring \<Rightarrow> row list \<Rightarrow> (jsstring \<times> row list) list" where
  "partition_spec col rows =
     map (\<lambda>k. (k, rowsOfGroup col k rows)) (firstOccurrences (groupKeys col rows))"

text \<open>The order of \<^verbatim>\<open>Object.entries\<close> on a list of distinct keys.\<close>

definition ownPropertyOrder :: "jsstring list \<Rightarrow> jsstring list" where
  "ownPropertyOrder ks =
     sort_key decimalValue (filter isArrayIndex ks) @ filter (\<lambda>k. \<not> isArrayIndex k) ks"

section \<open>The primary attempt, in the specification's words and in the code's\<close>

text \<open>
  The specification: the primary attempt is inconclusive when it produced no rows, or
  when there are rows and none of the candidate headers is present in the first one.
\<close>

definition primaryInconclusive_spec :: "parse_result \<Rightarrow> bool" where
  "primaryInconclusive_spec results \<longleftrightarrow>
     (case data results of
        [] \<Rightarrow> True
      | firstRow # _ \<Rightarrow> list_all (\<lambda>c. \<not> ownKey firstRow c) possibleColumnNames)"

text \<open>
  The two conditions under which the inner \<^verbatim>\<open>try\<close> throws: there are rows and none of
  the candidate headers is present in the first one, or there are no rows and at least
  one parse error.
\<close>

definition primaryInconclusive :: "parse_result \<Rightarrow> bool" where
  "primaryInconclusive results \<longleftrightarrow>
     (case data results of
        [] \<Rightarrow> errors results \<noteq> []
      | firstRow # _ \<Rightarrow> list_all (\<lambda>c. \<not> ownKey firstRow c) possibleColumnNames)"

text \<open>The first row has a column named \<^verbatim>\<open>hasOwnProperty\<close>.\<close>

definition methodShadowed :: "row list \<Rightarrow> bool" where
  "methodShadowed rows \<longleftrightarrow>
     (case rows of [] \<Rightarrow> False | firstRow # _ \<Rightarrow> ownKey firstRow (js ''hasOwnProperty''))"

text \<open>A file of a valid CSV type, as \<^verbatim>\<open>handleFileSelect\<close> tests it.\<close>

definition isCsvFile :: "js_file \<Rightarrow> bool" where
  "isCsvFile f \<longleftrightarrow> type f = js ''text/csv'' \<or> endsWith (toLowerCase (name f)) (js ''.csv'')"

section \<open>Concrete inputs\<close>

definition operadora :: jsstring where
  "operadora = js ''Nome da operadora:''"

definition rowB :: row where
  "rowB = [(operadora, js ''B''), (js ''Valor'', js ''10'')]"

definition rowOne :: row where
  "rowOne = [(operadora, js ''1''), (js ''Valor'', js ''20'')]"

definition rowTen :: row where
  "rowTen = [(operadora, js '' 10 ''), (js ''Valor'', js ''30'')]"

definition rowBlank :: row where
  "rowBlank = [(operadora, js ''  ''), (js ''Valor'', js ''40'')]"

definition rowShort :: row where
  "rowShort = [(js ''Valor'', js ''50'')]"

definition rowB2 :: row where
  "rowB2 = [(operadora, js ''B ''), (js ''Valor'', js ''60'')]"

definition rowNine :: row where
  "rowNine = [(operadora, js ''9''), (js ''Valor'', js ''70'')]"

definition shadowRow :: row where
  "shadowRow = [(js ''hasOwnProperty'', js ''x''), (operadora, js ''B'')]"

definition constructorRow :: row where
  "constructorRow = [(operadora, js ''constructor''), (js ''Valor'', js ''80'')]"

text \<open>A file with a header line only: no rows, no errors.\<close>

definition noRows :: parse_result where
  "noRows = \<lparr>data = [], errors = []\<rparr>"

definition oneRow :: parse_result where
  "oneRow = \<lparr>data = [rowB], errors = []\<rparr>"

text \<open>
  A primary result with a row and a header that holds U+FFFD, the mark of bytes that are
  no valid UTF-8: the header is none of the candidates.
\<close>

definition mojibake :: parse_result where
  "mojibake =
     \<lparr>data = [[(js ''Nome da operadora'' @ [0xFFFD], js ''B''), (js ''Valor'', js ''10'')]],
      errors = []\<rparr>"

definition someFile :: js_file where
  "someFile = \<lparr>name = js ''dados.csv'', type = js ''text/csv''\<rparr>"

definition parseNoRows :: "js_file \<Rightarrow> jsstring \<Rightarrow> parse_outcome" where
  "parseNoRows f encoding = (if encoding = utf8 then Resolved noRows else Resolved oneRow)"

definition parseMojibake :: "js_file \<Rightarrow> jsstring \<Rightarrow> parse_outcome" where
  "parseMojibake f encoding = (if encoding = utf8 then Resolved mojibake else Resolved oneRow)"

definition parseConstructor :: "js_file \<Rightarrow> jsstring \<Rightarrow> parse_outcome" where
  "parseConstructor f encoding = Resolved \<lparr>data = [constructorRow], errors = []\<rparr>"

definition tooFewFields :: parse_error where
  "tooFewFields = \<lparr>row = Some 12, message = js ''Too few fields''\<rparr>"

text \<open>A stand-in for the serializer: the number of rows, in decimal.\<close>

definition unparseCount :: "row list \<Rightarrow> jsstring" where
  "unparseCount rows = numberToString (length rows)"

definition csvFile :: js_file where
  "csvFile = \<lparr>name = js ''Dados.CSV'', type = []\<rparr>"

definition pngFile :: js_file where
  "pngFile = \<lparr>name = js ''foto.png'', type = js ''image/png''\<rparr>"

definition fileA :: generated_file where
  "fileA = \<lparr>filename = js ''A.csv'', content = js ''x''\<rparr>"

definition afterRun :: app_state where
  "afterRun = \<lparr>sourceFile = Some csvFile, generatedFiles = [fileA], isLoading = False,
               isZipping = False, error = Some (js ''old'')\<rparr>"

definition selected :: app_state where
  "selected = \<lparr>sourceFile = Some someFile, generatedFiles = [fileA], isLoading = False,
               isZipping = False, error = None\<rparr>"

section \<open>Properties of the sanitizer\<close>

lemma removeDisallowed_filter: "removeDisallowed s = filter inSanitizerClass s"
  by (induction s) simp_all

lemma collapse_at_whitespace:
  "isWhiteSpace c \<Longrightarrow>
   collapseWhitespaceRuns (c # cs) = underscore # collapseWhitespaceRuns (dropWhile isWhiteSpace cs)"
proof (induction cs arbitrary: c)
  case Nil
  then show ?case by simp
next
  case (Cons d ds)
  then show ?case by (cases "isWhiteSpace d") simp_all
qed

lemma collapse_at_other:
  "\<not> isWhiteSpace c \<Longrightarrow> collapseWhitespaceRuns (c # cs) = c # collapseWhitespaceRuns cs"
  by (cases cs) simp_all

lemma replaceWhitespaceRuns_collapse: "replaceWhitespaceRuns s = collapseWhitespaceRuns s"
  by (induction s rule: replaceWhitespaceRuns.induct)
     (simp_all add: collapse_at_whitespace collapse_at_other)

lemma underscore_not_whitespace: "\<not> isWhiteSpace underscore"
  by (simp add: isWhiteSpace_def underscore_def)

lemma underscore_not_in_class: "\<not> inSanitizerClass underscore"
  by (simp add: inSanitizerClass_def isAsciiLetter_def isAsciiDigit_def isWhiteSpace_def
      underscore_def hyphen_def)

lemma replaceWhitespaceRuns_no_whitespace:
  "c \<in> set (replaceWhitespaceRuns s) \<Longrightarrow> \<not> isWhiteSpace c"
  by (induction s rule: replaceWhitespaceRuns.induct)
     (auto simp: underscore_not_whitespace split: if_splits)

lemma replaceWhitespaceRuns_subset:
  "set (replaceWhitespaceRuns s) \<subseteq> insert underscore (set s)"
proof (induction s rule: replaceWhitespaceRuns.induct)
  case 1
  then show ?case by simp
next
  case (2 c cs)
  have "set (dropWhile isWhiteSpace cs) \<subseteq> set cs"
    by (meson set_dropWhileD subsetI)
  with 2 show ?case by (auto split: if_splits)
qed

lemma replaceWhitespaceRuns_id:
  "\<forall>c\<in>set s. \<not> isWhiteSpace c \<Longrightarrow> replaceWhitespaceRuns s = s"
  by (induction s) simp_all

lemma replaceWhitespaceRuns_underscore:
  "underscore \<in> set (replaceWhitespaceRuns s) \<longleftrightarrow>
   underscore \<in> set s \<or> (\<exists>c\<in>set s. isWhiteSpace c)"
proof (induction s rule: replaceWhitespaceRuns.induct)
  case 1
  then show ?case by simp
next
  case (2 c cs)
  show ?case
  proof (cases "isWhiteSpace c")
    case True
    then show ?thesis by simp
  next
    case False
    with 2 show ?thesis by auto
  qed
qed

lemma dropWhile_none: "\<forall>c\<in>set s. \<not> P c \<Longrightarrow> dropWhile P s = s"
  by (cases s) simp_all

lemma trim_no_whitespace: "\<forall>c\<in>set s. \<not> isWhiteSpace c \<Longrightarrow> trim s = s"
proof -
  assume a: "\<forall>c\<in>set s. \<not> isWhiteSpace c"
  then have "dropWhile isWhiteSpace s = s"
    by (rule dropWhile_none)
  moreover from a have "dropWhile isWhiteSpace (rev s) = rev s"
    by (intro dropWhile_none) simp
  ultimately show ?thesis by (simp add: trim_def)
qed

lemma sanitizeFilename_unfold:
  "sanitizeFilename x = replaceWhitespaceRuns (filter inSanitizerClass x) @ csvExtension"
  by (simp add: sanitizeFilename_def removeDisallowed_filter trim_no_whitespace
      replaceWhitespaceRuns_no_whitespace)

lemma sanitizeFilename_base_append: "sanitizeFilename_base (s @ csvExtension) = s"
  by (simp add: sanitizeFilename_base_def)

lemma sanitizeFilename_base_sanitize:
  "sanitizeFilename_base (sanitizeFilename x) =
   replaceWhitespaceRuns (filter inSanitizerClass x)"
  by (simp add: sanitizeFilename_unfold sanitizeFilename_base_append)

lemma base_character:
  assumes "c \<in> set (replaceWhitespaceRuns (filter inSanitizerClass x))"
  shows "\<not> isWhiteSpace c \<and> (isAsciiLetter c \<or> isAsciiDigit c \<or> c = underscore \<or> c = hyphen)"
proof -
  have nw: "\<not> isWhiteSpace c"
    using assms by (rule replaceWhitespaceRuns_no_whitespace)
  from assms replaceWhitespaceRuns_subset
  have "c = underscore \<or> c \<in> set (filter inSanitizerClass x)"
    by blast
  then have "c = underscore \<or> inSanitizerClass c"
    by auto
  with nw show ?thesis
    by (auto simp: inSanitizerClass_def)
qed

lemmas class_defs = inSanitizerClass_def isAsciiLetter_def isAsciiDigit_def isWhiteSpace_def
  hyphen_def underscore_def

section \<open>Claims about the sanitizer\<close>

text \<open>
  C3. For every group key, \<open>sanitizeFilename\<close> returns the key with every character
  removed that is not an ASCII letter, an ASCII digit, whitespace or a hyphen, then every
  run of whitespace replaced by one underscore, then trimmed, then followed by
  \<^verbatim>\<open>.csv\<close>. Letters outside ASCII are stripped: the key \<^verbatim>\<open>Caf\<close>, U+00E9,
  \<^verbatim>\<open> & Cia!\<close> gives \<^verbatim>\<open>Caf_Cia.csv\<close>.
\<close>

theorem sanitizeFilename_as_specified:
  "sanitizeFilename key = sanitizeFilename_spec key
   \<and> sanitizeFilename_spec key
       = trim (collapseWhitespaceRuns (filter inSanitizerClass key)) @ js ''.csv''
   \<and> sanitizeFilename cafeKey = js ''Caf_Cia.csv''"
proof (intro conjI)
  show "sanitizeFilename key = sanitizeFilename_spec key"
    by (simp add: sanitizeFilename_def sanitizeFilename_spec_def removeDisallowed_filter
        replaceWhitespaceRuns_collapse csvExtension_def)
  show "sanitizeFilename_spec key
       = trim (collapseWhitespaceRuns (filter inSanitizerClass key)) @ js ''.csv''"
    by (simp add: sanitizeFilename_spec_def)
  show "sanitizeFilename cafeKey = js ''Caf_Cia.csv''"
    by (simp add: sanitizeFilename_unfold cafeKey_def js_def csvExtension_def class_defs)
qed

text \<open>
  C9. The result of \<open>sanitizeFilename\<close> ends in \<^verbatim>\<open>.csv\<close>; the base before that suffix
  holds no whitespace and only ASCII letters, ASCII digits, underscores and hyphens; a
  key without any ASCII letter, digit, whitespace or hyphen gives the bare name
  \<^verbatim>\<open>.csv\<close>.
\<close>

theorem sanitizeFilename_shape:
  "sanitizeFilename x = sanitizeFilename_base (sanitizeFilename x) @ js ''.csv''
   \<and> (\<forall>c\<in>set (sanitizeFilename_base (sanitizeFilename x)).
         \<not> isWhiteSpace c
         \<and> (isAsciiLetter c \<or> isAsciiDigit c \<or> c = underscore \<or> c = hyphen))
   \<and> ((\<forall>c\<in>set x. \<not> inSanitizerClass c) \<longrightarrow> sanitizeFilename x = js ''.csv'')"
proof (intro conjI)
  show "sanitizeFilename x = sanitizeFilename_base (sanitizeFilename x) @ js ''.csv''"
    by (simp add: sanitizeFilename_base_sanitize)
       (simp add: sanitizeFilename_unfold csvExtension_def)
  show "\<forall>c\<in>set (sanitizeFilename_base (sanitizeFilename x)).
         \<not> isWhiteSpace c
         \<and> (isAsciiLetter c \<or> isAsciiDigit c \<or> c = underscore \<or> c = hyphen)"
    using base_character by (simp add: sanitizeFilename_base_sanitize)
  show "(\<forall>c\<in>set x. \<not> inSanitizerClass c) \<longrightarrow> sanitizeFilename x = js ''.csv''"
  proof
    assume "\<forall>c\<in>set x. \<not> inSanitizerClass c"
    then have "filter inSanitizerClass x = []"
      by (simp add: filter_empty_conv)
    then show "sanitizeFilename x = js ''.csv''"
      by (simp add: sanitizeFilename_unfold csvExtension_def)
  qed
qed

text \<open>The key made of U+00E9 and an exclamation mark gives \<^verbatim>\<open>.csv\<close>.\<close>

theorem sanitizeFilename_shape_witness:
  "sanitizeFilename [0xE9, 0x21] = js ''.csv''"
  using sanitizeFilename_shape [of "[0xE9, 0x21]"]
  by (simp add: class_defs)

lemma resanitize:
  "sanitizeFilename (sanitizeFilename_base (sanitizeFilename x))
   = filter inSanitizerClass (replaceWhitespaceRuns (filter inSanitizerClass x)) @ csvExtension"
proof -
  let ?y = "replaceWhitespaceRuns (filter inSanitizerClass x)"
  have "\<forall>c\<in>set (filter inSanitizerClass ?y). \<not> isWhiteSpace c"
    by (auto dest: replaceWhitespaceRuns_no_whitespace)
  then have "replaceWhitespaceRuns (filter inSanitizerClass ?y) = filter inSanitizerClass ?y"
    by (rule replaceWhitespaceRuns_id)
  then show ?thesis
    by (simp add: sanitizeFilename_base_sanitize sanitizeFilename_unfold [of ?y])
qed

text \<open>
  C4, as stated, fails: the base \<^verbatim>\<open>a_b\<close> of \<^verbatim>\<open>a_b.csv\<close>, the name made from
  \<^verbatim>\<open>a b\<close>, is sanitized to \<^verbatim>\<open>ab.csv\<close>, since the underscore is outside the class
  that the first replacement keeps.
\<close>

theorem sanitizeFilename_not_idempotent:
  "sanitizeFilename (sanitizeFilename_base (sanitizeFilename (js ''a b'')))
   \<noteq> sanitizeFilename (js ''a b'')"
  by (simp only: resanitize)
     (simp add: sanitizeFilename_unfold js_def csvExtension_def class_defs)

text \<open>
  C4, amended. Sanitizing the base of \<open>sanitizeFilename x\<close> gives
  \<open>sanitizeFilename x\<close> again exactly when \<open>x\<close> holds no whitespace character.
\<close>

theorem sanitizeFilename_idempotent_iff:
  "sanitizeFilename (sanitizeFilename_base (sanitizeFilename x)) = sanitizeFilename x
   \<longleftrightarrow> (\<forall>c\<in>set x. \<not> isWhiteSpace c)"
proof -
  let ?y = "replaceWhitespaceRuns (filter inSanitizerClass x)"
  have "sanitizeFilename (sanitizeFilename_base (sanitizeFilename x)) = sanitizeFilename x
        \<longleftrightarrow> filter inSanitizerClass ?y = ?y"
    by (simp only: resanitize) (simp only: sanitizeFilename_unfold append_same_eq)
  also have "\<dots> \<longleftrightarrow> (\<forall>c\<in>set ?y. inSanitizerClass c)"
    by (simp add: filter_id_conv)
  also have "\<dots> \<longleftrightarrow> underscore \<notin> set ?y"
  proof
    assume "\<forall>c\<in>set ?y. inSanitizerClass c"
    then show "underscore \<notin> set ?y"
      using underscore_not_in_class by blast
  next
    assume u: "underscore \<notin> set ?y"
    show "\<forall>c\<in>set ?y. inSanitizerClass c"
    proof
      fix c assume c: "c \<in> set ?y"
      with replaceWhitespaceRuns_subset have "c = underscore \<or> c \<in> set (filter inSanitizerClass x)"
        by blast
      with u c show "inSanitizerClass c" by auto
    qed
  qed
  also have "\<dots> \<longleftrightarrow> (\<forall>c\<in>set x. \<not> isWhiteSpace c)"
    using underscore_not_in_class
    by (auto simp: replaceWhitespaceRuns_underscore inSanitizerClass_def)
  finally show ?thesis .
qed

text \<open>A key without whitespace, on which the second application changes nothing.\<close>

theorem sanitizeFilename_idempotent_iff_witness:
  "sanitizeFilename (sanitizeFilename_base (sanitizeFilename (js ''Ab-9'' @ [0xE9])))
   = sanitizeFilename (js ''Ab-9'' @ [0xE9])"
  using sanitizeFilename_idempotent_iff [of "js ''Ab-9'' @ [0xE9]"]
  by (simp add: js_def isWhiteSpace_def)

section \<open>Grouping\<close>

lemma set_firstOccurrences: "set (firstOccurrences xs) = set xs"
  by (induction xs rule: firstOccurrences.induct) auto

lemma distinct_firstOccurrences: "distinct (firstOccurrences xs)"
  by (induction xs rule: firstOccurrences.induct) (auto simp: set_firstOccurrences)

lemma groupKeys_Cons:
  "groupKeys col (r # rs) =
   (case groupKey col r of None \<Rightarrow> groupKeys col rs | Some g \<Rightarrow> g # groupKeys col rs)"
  by (simp add: groupKeys_def split: option.splits)

lemma rowsOfGroup_Cons:
  "rowsOfGroup col k (r # rs) =
   (if groupKey col r = Some k then r # rowsOfGroup col k rs else rowsOfGroup col k rs)"
  by (simp add: rowsOfGroup_def)

lemma pushRow_absent: "k \<notin> fst ` set acc \<Longrightarrow> pushRow k r acc = acc"
  by (induction acc) (auto simp: pushRow_def)

lemma keys_pushRow: "map fst (pushRow k r acc) = map fst acc"
  by (induction acc) (auto simp: pushRow_def)

lemma reducer_skip: "groupKey col r = None \<Longrightarrow> reducer col acc r = Inr acc"
  by (auto simp: reducer_def groupKey_def Let_def split: option.splits if_splits)

lemma reducer_push:
  "groupKey col r = Some g \<Longrightarrow> g \<in> fst ` set acc \<Longrightarrow> reducer col acc r = Inr (pushRow g r acc)"
proof -
  assume k: "groupKey col r = Some g" and own: "g \<in> fst ` set acc"
  from own obtain rows where m: "map_of acc g = Some rows"
    by (metis map_of_eq_None_iff not_Some_eq)
  from k obtain v where v: "map_of r col = Some v" "trim v = g" "g \<noteq> []"
    by (auto simp: groupKey_def split: option.splits if_splits)
  with m show ?thesis
    by (simp add: reducer_def getProperty_def)
qed

lemma reducer_create:
  "groupKey col r = Some g \<Longrightarrow> g \<notin> fst ` set acc \<Longrightarrow> g \<notin> set objectPrototypeKeys \<Longrightarrow>
   reducer col acc r = Inr (acc @ [(g, [r])])"
proof -
  assume k: "groupKey col r = Some g" and new: "g \<notin> fst ` set acc"
    and np: "g \<notin> set objectPrototypeKeys"
  from new have m: "map_of acc g = None"
    by (simp add: map_of_eq_None_iff)
  from k obtain v where v: "map_of r col = Some v" "trim v = g" "g \<noteq> []"
    by (auto simp: groupKey_def split: option.splits if_splits)
  have "pushRow g r (acc @ [(g, [])]) = acc @ [(g, [r])]"
    using pushRow_absent [OF new, of r] by (simp add: pushRow_def)
  moreover from m have "map_of (acc @ [(g, [])]) g = Some []"
    by (simp add: map_add_def)
  ultimately show ?thesis
    using m v np by (simp add: reducer_def getProperty_def del: map_of_append)
qed

lemma reducer_inherited:
  "groupKey col r = Some g \<Longrightarrow> g \<notin> fst ` set acc \<Longrightarrow> g \<in> set objectPrototypeKeys \<Longrightarrow>
   reducer col acc r = Inl TypeError"
proof -
  assume k: "groupKey col r = Some g" and new: "g \<notin> fst ` set acc"
    and p: "g \<in> set objectPrototypeKeys"
  from new have m: "map_of acc g = None"
    by (simp add: map_of_eq_None_iff)
  from k obtain v where v: "map_of r col = Some v" "trim v = g" "g \<noteq> []"
    by (auto simp: groupKey_def split: option.splits if_splits)
  with m p show ?thesis
    by (simp add: reducer_def getProperty_def)
qed


lemma old_groups_push:
  "groupKey col r = Some g \<Longrightarrow>
   map (\<lambda>(k, old). (k, old @ rowsOfGroup col k rs)) (pushRow g r acc)
   = map (\<lambda>(k, old). (k, old @ rowsOfGroup col k (r # rs))) acc"
  by (induction acc) (auto simp: pushRow_def rowsOfGroup_Cons)

lemma old_groups_other:
  "groupKey col r = Some g \<Longrightarrow> g \<notin> fst ` set acc \<Longrightarrow>
   map (\<lambda>(k, old). (k, old @ rowsOfGroup col k (r # rs))) acc
   = map (\<lambda>(k, old). (k, old @ rowsOfGroup col k rs)) acc"
  by (induction acc) (auto simp: rowsOfGroup_Cons)

lemma new_groups_other:
  "groupKey col r = Some g \<Longrightarrow> g \<notin> set ks \<Longrightarrow>
   map (\<lambda>k. (k, rowsOfGroup col k (r # rs))) ks = map (\<lambda>k. (k, rowsOfGroup col k rs)) ks"
  by (induction ks) (auto simp: rowsOfGroup_Cons)

lemma groups_skip:
  "groupKey col r = None \<Longrightarrow> rowsOfGroup col k (r # rs) = rowsOfGroup col k rs"
  by (simp add: rowsOfGroup_Cons)

lemma reduceRows_closed:
  "fst ` set acc \<inter> set objectPrototypeKeys = {} \<Longrightarrow>
   reduceRows col acc rs =
     (if \<exists>k\<in>set (groupKeys col rs). k \<in> set objectPrototypeKeys then Inl TypeError
      else Inr (map (\<lambda>(k, old). (k, old @ rowsOfGroup col k rs)) acc
                @ map (\<lambda>k. (k, rowsOfGroup col k rs))
                    (firstOccurrences (filter (\<lambda>k. k \<notin> fst ` set acc) (groupKeys col rs)))))"
proof (induction rs arbitrary: acc)
  case Nil
  then show ?case
    by (simp add: groupKeys_def rowsOfGroup_def)
next
  case (Cons r rs)
  show ?case
  proof (cases "groupKey col r")
    case None
    then show ?thesis
      using Cons by (simp add: reducer_skip groupKeys_Cons groups_skip)
  next
    case (Some g)
    show ?thesis
    proof (cases "g \<in> set objectPrototypeKeys")
      case True
      with Cons.prems have "g \<notin> fst ` set acc"
        by blast
      with Some True show ?thesis
        by (simp add: reducer_inherited groupKeys_Cons)
    next
      case notProto: False
      show ?thesis
      proof (cases "g \<in> fst ` set acc")
        case True
        have inv: "fst ` set (pushRow g r acc) \<inter> set objectPrototypeKeys = {}"
          using Cons.prems keys_pushRow [of g r acc] by (metis set_map)
        have keys: "fst ` set (pushRow g r acc) = fst ` set acc"
          using keys_pushRow [of g r acc] by (metis set_map)
        have "g \<notin> set (firstOccurrences (filter (\<lambda>k. k \<notin> fst ` set acc) (groupKeys col rs)))"
          using True by (simp add: set_firstOccurrences)
        then show ?thesis
          using Some True notProto Cons.IH [OF inv]
          by (simp add: reducer_push groupKeys_Cons keys old_groups_push new_groups_other)
      next
        case False
        let ?rest = "filter (\<lambda>k. k \<noteq> g) (filter (\<lambda>k. k \<notin> fst ` set acc) (groupKeys col rs))"
        have inv: "fst ` set (acc @ [(g, [r])]) \<inter> set objectPrototypeKeys = {}"
          using Cons.prems notProto by auto
        have f: "filter (\<lambda>k. k \<notin> fst ` set (acc @ [(g, [r])])) (groupKeys col rs) = ?rest"
          by (auto intro: filter_cong)
        have step: "reduceRows col acc (r # rs) = reduceRows col (acc @ [(g, [r])]) rs"
          using Some False notProto by (simp add: reducer_create)
        have cond: "(\<exists>k\<in>set (groupKeys col (r # rs)). k \<in> set objectPrototypeKeys)
                    \<longleftrightarrow> (\<exists>k\<in>set (groupKeys col rs). k \<in> set objectPrototypeKeys)"
          using Some notProto by (simp add: groupKeys_Cons)
        have keys: "filter (\<lambda>k. k \<notin> fst ` set acc) (groupKeys col (r # rs))
                    = g # filter (\<lambda>k. k \<notin> fst ` set acc) (groupKeys col rs)"
          using Some False by (simp add: groupKeys_Cons)
        have "g \<notin> set (firstOccurrences ?rest)"
          by (simp add: set_firstOccurrences)
        then have new: "map (\<lambda>k. (k, rowsOfGroup col k (r # rs))) (firstOccurrences ?rest)
                        = map (\<lambda>k. (k, rowsOfGroup col k rs)) (firstOccurrences ?rest)"
          using Some by (rule new_groups_other [rotated])
        have here: "rowsOfGroup col g (r # rs) = r # rowsOfGroup col g rs"
          using Some by (simp add: rowsOfGroup_Cons)
        have "map (\<lambda>(k, old). (k, old @ rowsOfGroup col k (r # rs))) acc
                @ map (\<lambda>k. (k, rowsOfGroup col k (r # rs)))
                    (firstOccurrences (filter (\<lambda>k. k \<notin> fst ` set acc) (groupKeys col (r # rs))))
              = map (\<lambda>(k, old). (k, old @ rowsOfGroup col k rs)) (acc @ [(g, [r])])
                @ map (\<lambda>k. (k, rowsOfGroup col k rs)) (firstOccurrences ?rest)"
          by (simp only: keys firstOccurrences.simps list.map new here
              old_groups_other [OF Some False] map_append split_conv append.simps append_assoc)
        with step cond Cons.IH [OF inv] show ?thesis
          by (simp only: f)
      qed
    qed
  qed
qed

lemma groupedByValue_closed:
  "groupedByValue col rows =
     (if \<exists>k\<in>set (groupKeys col rows). k \<in> set objectPrototypeKeys then Inl TypeError
      else Inr (partition_spec col rows))"
  using reduceRows_closed [of "[]" col rows]
  by (simp add: groupedByValue_def partition_spec_def)


lemma insort_key_map:
  "insort_key f (h x) (map h xs) = map h (insort_key (\<lambda>y. f (h y)) x xs)"
  by (induction xs) simp_all

lemma sort_key_map: "sort_key f (map h xs) = map h (sort_key (\<lambda>y. f (h y)) xs)"
  by (induction xs) (simp_all add: insort_key_map)

lemma objectEntries_map:
  "objectEntries (map (\<lambda>k. (k, F k)) ks) = map (\<lambda>k. (k, F k)) (ownPropertyOrder ks)"
  by (simp add: objectEntries_def ownPropertyOrder_def filter_map comp_def sort_key_map)

lemma ownPropertyOrder_no_index:
  "\<forall>k\<in>set ks. \<not> isArrayIndex k \<Longrightarrow> ownPropertyOrder ks = ks"
  by (simp add: ownPropertyOrder_def filter_empty_conv filter_id_conv)

lemma set_ownPropertyOrder: "set (ownPropertyOrder ks) = set ks"
  by (auto simp: ownPropertyOrder_def)

lemma distinct_ownPropertyOrder: "distinct ks \<Longrightarrow> distinct (ownPropertyOrder ks)"
  by (auto simp: ownPropertyOrder_def)

lemma groupEntries_closed:
  "groupEntries col rows =
     (if \<exists>k\<in>set (groupKeys col rows). k \<in> set objectPrototypeKeys then Inl TypeError
      else Inr (map (\<lambda>k. (k, rowsOfGroup col k rows))
                 (ownPropertyOrder (firstOccurrences (groupKeys col rows)))))"
  by (simp add: groupEntries_def groupedByValue_closed partition_spec_def objectEntries_map)

lemmas eval_defs = Let_def js_def operadora_def trim_def isWhiteSpace_def groupKey_def
  isArrayIndex_def isAsciiDigit_def decimalValue_def digitValue_def

text \<open>
  C2, as stated, fails: for the rows with keys \<^verbatim>\<open>B\<close> and \<^verbatim>\<open>1\<close>, in this order, the
  group \<^verbatim>\<open>1\<close> comes out before the group \<^verbatim>\<open>B\<close>, while the order of first
  occurrence is \<^verbatim>\<open>B\<close>, \<^verbatim>\<open>1\<close>.
\<close>

theorem groupEntries_not_first_occurrence:
  "groupEntries operadora [rowB, rowOne] = Inr [(js ''1'', [rowOne]), (js ''B'', [rowB])]
   \<and> firstOccurrences (groupKeys operadora [rowB, rowOne]) = [js ''B'', js ''1'']"
  by (simp add: groupEntries_def groupedByValue_def reducer_def getProperty_def pushRow_def
      objectEntries_def objectPrototypeKeys_def groupKeys_def rowB_def rowOne_def eval_defs)

text \<open>
  C2, amended. As long as no group key is the name of a property of
  \<^verbatim>\<open>Object.prototype\<close>: the rows are taken in their order; the key of a row is the
  trimmed value at the grouping column, and a row whose trimmed value is empty or whose
  column is missing is skipped without error; there is one group for each key, holding
  the rows of that key in their original order. The groups come out in the order of the
  object's own properties: the keys that are array indices by ascending value, then the
  other keys by first occurrence. When no key is an array index, this is the order of
  first occurrence.
\<close>

theorem groupEntries_own_property_order:
  assumes "\<forall>k\<in>set (groupKeys col rows). k \<notin> set objectPrototypeKeys"
  shows "groupEntries col rows =
           Inr (map (\<lambda>k. (k, rowsOfGroup col k rows))
                  (ownPropertyOrder (firstOccurrences (groupKeys col rows))))
         \<and> ((\<forall>k\<in>set (groupKeys col rows). \<not> isArrayIndex k) \<longrightarrow>
              groupEntries col rows = Inr (partition_spec col rows))"
  using assms
  by (auto simp: groupEntries_closed partition_spec_def ownPropertyOrder_no_index
      set_firstOccurrences)

text \<open>
  Six rows with the values \<^verbatim>\<open>B\<close>, \<^verbatim>\<open> 10 \<close>, blanks, no such column, \<^verbatim>\<open>B \<close> and
  \<^verbatim>\<open>9\<close>: three groups, \<^verbatim>\<open>9\<close>, \<^verbatim>\<open>10\<close>, \<^verbatim>\<open>B\<close>.
\<close>

theorem groupEntries_own_property_order_witness:
  "groupEntries operadora [rowB, rowTen, rowBlank, rowShort, rowB2, rowNine] =
   Inr [(js ''9'', [rowNine]), (js ''10'', [rowTen]), (js ''B'', [rowB, rowB2])]"
  using groupEntries_own_property_order
    [of operadora "[rowB, rowTen, rowBlank, rowShort, rowB2, rowNine]"]
  by (simp add: groupKeys_def rowsOfGroup_def ownPropertyOrder_def objectPrototypeKeys_def
      rowB_def rowTen_def rowBlank_def rowShort_def rowB2_def rowNine_def eval_defs)

lemma group_sizes:
  "finite K \<Longrightarrow> set (groupKeys col rows) \<subseteq> K \<Longrightarrow>
   (\<Sum>k\<in>K. length (rowsOfGroup col k rows)) + length (filter (\<lambda>r. groupKey col r = None) rows)
   = length rows"
proof (induction rows)
  case Nil
  then show ?case by (simp add: rowsOfGroup_def)
next
  case (Cons r rs)
  show ?case
  proof (cases "groupKey col r")
    case None
    with Cons show ?thesis
      by (simp add: groups_skip groupKeys_Cons)
  next
    case (Some g)
    with Cons.prems have g: "g \<in> K" and sub: "set (groupKeys col rs) \<subseteq> K"
      by (simp_all add: groupKeys_Cons)
    have "(\<Sum>k\<in>K. length (rowsOfGroup col k (r # rs)))
          = (\<Sum>k\<in>K. length (rowsOfGroup col k rs) + (if k = g then 1 else 0))"
      using Some by (intro sum.cong) (auto simp: rowsOfGroup_Cons)
    also have "\<dots> = (\<Sum>k\<in>K. length (rowsOfGroup col k rs)) + 1"
      using Cons.prems(1) g by (simp add: sum.distrib)
    finally show ?thesis
      using Cons.IH [OF Cons.prems(1) sub] Some by simp
  qed
qed

lemma partition_conservation:
  assumes "groupEntries col rows = Inr groups"
  shows "sum_list (map (\<lambda>(k, rs). length rs) groups)
           + length (filter (\<lambda>r. groupKey col r = None) rows) = length rows"
    and "distinct (map fst groups)"
    and "\<forall>(k, rs)\<in>set groups. \<forall>r\<in>set rs. groupKey col r = Some k"
proof -
  let ?ks = "ownPropertyOrder (firstOccurrences (groupKeys col rows))"
  from assms have groups: "groups = map (\<lambda>k. (k, rowsOfGroup col k rows)) ?ks"
    by (simp add: groupEntries_closed split: if_splits)
  have d: "distinct ?ks"
    by (simp add: distinct_ownPropertyOrder distinct_firstOccurrences)
  have s: "set ?ks = set (groupKeys col rows)"
    by (simp add: set_ownPropertyOrder set_firstOccurrences)
  have "sum_list (map (\<lambda>(k, rs). length rs) groups)
        = sum_list (map (\<lambda>k. length (rowsOfGroup col k rows)) ?ks)"
    by (simp add: groups comp_def)
  also have "\<dots> = (\<Sum>k\<in>set ?ks. length (rowsOfGroup col k rows))"
    using d by (rule sum_list_distinct_conv_sum_set)
  finally show "sum_list (map (\<lambda>(k, rs). length rs) groups)
           + length (filter (\<lambda>r. groupKey col r = None) rows) = length rows"
    using group_sizes [of "set ?ks" col rows] s by simp
  show "distinct (map fst groups)"
    using d by (simp add: groups comp_def)
  show "\<forall>(k, rs)\<in>set groups. \<forall>r\<in>set rs. groupKey col r = Some k"
    by (auto simp: groups rowsOfGroup_def)
qed

text \<open>
  C5. For every input with a candidate grouping header, the rows of all groups together
  with the rows of empty or missing key are all the rows, no row is in two groups, and
  every row of a group has the key of the group. Where the grouping returns groups this
  holds (\<open>partition_conservation\<close>). It does not return groups for every input: on a
  row whose key is \<^verbatim>\<open>constructor\<close> the lookup \<^verbatim>\<open>acc[groupName]\<close> finds the inherited
  property, no array is made, and \<^verbatim>\<open>push\<close> is called on a value that has none. The
  one row of the input below has a key and is in no group; the run ends with the
  engine's message as the error and without files.
\<close>

theorem constructor_key_aborts:
  "groupKey operadora constructorRow = Some (js ''constructor'')
   \<and> findGroupingColumn [constructorRow] = Inr (Some operadora)
   \<and> groupedByValue operadora [constructorRow] = Inl TypeError
   \<and> pipeline parseConstructor unparse someFile = Inl TypeError
   \<and> processCsvFile parseConstructor unparse typeErrorText selected
       = selected\<lparr>generatedFiles := [], error := Some typeErrorText\<rparr>"
proof -
  have k: "groupKey operadora constructorRow = Some (js ''constructor'')"
    by (simp add: constructorRow_def eval_defs)
  have c: "findGroupingColumn [constructorRow] = Inr (Some operadora)"
    by (simp add: findGroupingColumn_def possibleColumnNames_def hasOwnProperty_def ownKey_def
        constructorRow_def operadora_def js_def)
  have g: "groupedByValue operadora [constructorRow] = Inl TypeError"
    by (simp add: groupedByValue_def reducer_def getProperty_def objectPrototypeKeys_def
        constructorRow_def eval_defs)
  have p: "pipeline parseConstructor unparse someFile = Inl TypeError"
    using c g
    by (simp add: pipeline_def selectResults_def parseConstructor_def processResults_def
        splitRows_def requireGroupingColumn_def groupEntries_def)
  have "processCsvFile parseConstructor unparse typeErrorText selected
       = selected\<lparr>generatedFiles := [], error := Some typeErrorText\<rparr>"
    using p by (simp add: processCsvFile_def selected_def errorMessage_def)
  with k c g p show ?thesis by simp
qed

section \<open>Encoding fallback\<close>

lemma hasOwnProperty_inherited:
  "\<not> ownKey r (js ''hasOwnProperty'') \<Longrightarrow> hasOwnProperty r k = Inr (ownKey r k)"
  by (simp add: hasOwnProperty_def ownKey_def)

lemma hasOwnProperty_own:
  "ownKey r (js ''hasOwnProperty'') \<Longrightarrow> hasOwnProperty r k = Inl TypeError"
  by (auto simp: hasOwnProperty_def ownKey_def)

lemma findName_inherited:
  "\<not> ownKey r (js ''hasOwnProperty'') \<Longrightarrow> findName r ns = Inr (find (ownKey r) ns)"
  by (induction ns) (simp_all add: hasOwnProperty_inherited)

lemma findGroupingColumn_inherited:
  "\<not> methodShadowed rows \<Longrightarrow>
   findGroupingColumn rows =
     Inr (case rows of [] \<Rightarrow> None | firstRow # _ \<Rightarrow> find (ownKey firstRow) possibleColumnNames)"
  by (simp add: findGroupingColumn_def methodShadowed_def findName_inherited split: list.splits)

lemma findGroupingColumn_shadowed:
  "methodShadowed rows \<Longrightarrow> findGroupingColumn rows = Inl TypeError"
  by (simp add: findGroupingColumn_def methodShadowed_def possibleColumnNames_def
      hasOwnProperty_own split: list.splits)

lemma findGroupingColumn_None:
  "\<not> methodShadowed rows \<Longrightarrow>
   findGroupingColumn rows = Inr None \<longleftrightarrow>
   (case rows of [] \<Rightarrow> True
    | firstRow # _ \<Rightarrow> list_all (\<lambda>c. \<not> ownKey firstRow c) possibleColumnNames)"
  by (auto simp: findGroupingColumn_inherited find_None_iff list_all_iff split: list.splits)

text \<open>
  Every case of the inner \<^verbatim>\<open>try\<close>: the second call is made when the promise is rejected,
  when the column lookup throws, and under the two guards.
\<close>

lemma selectResults_cases:
  "selectResults parseWithEncoding f =
     (if (case parseWithEncoding f utf8 of
            Rejected e \<Rightarrow> True
          | Resolved results \<Rightarrow> methodShadowed (data results) \<or> primaryInconclusive results)
      then fallbackParse parseWithEncoding f
      else ([(f, utf8)],
            case parseWithEncoding f utf8 of
              Rejected e \<Rightarrow> Inl e
            | Resolved results \<Rightarrow> Inr results))"
proof (cases "parseWithEncoding f utf8")
  case (Rejected e)
  then show ?thesis
    by (simp add: selectResults_def)
next
  case (Resolved results)
  show ?thesis
  proof (cases "methodShadowed (data results)")
    case True
    with Resolved show ?thesis
      by (simp add: selectResults_def findGroupingColumn_shadowed)
  next
    case False
    obtain column where column: "findGroupingColumn (data results) = Inr column"
      using findGroupingColumn_inherited [OF False] by blast
    have "column = None \<and> data results \<noteq> [] \<or> errors results \<noteq> [] \<and> data results = []
          \<longleftrightarrow> primaryInconclusive results"
      using findGroupingColumn_None [OF False] column
      by (auto simp: primaryInconclusive_def split: list.splits)
    with Resolved False column show ?thesis
      by (auto simp: selectResults_def Let_def)
  qed
qed

text \<open>
  C1, as stated, fails: a primary result without rows and without errors is inconclusive
  in the words of the claim, and yet it is used; ISO-8859-1 is not tried, though it
  would have given a row.
\<close>

theorem selectResults_no_retry_without_rows:
  "primaryInconclusive_spec noRows
   \<and> selectResults parseNoRows someFile = ([(someFile, js ''UTF-8'')], Inr noRows)
   \<and> parseNoRows someFile (js ''ISO-8859-1'') = Resolved oneRow"
  by (simp add: primaryInconclusive_spec_def selectResults_def parseNoRows_def noRows_def
      findGroupingColumn_def utf8_def latin1_def js_def)

text \<open>
  C1, amended. The file is first parsed as UTF-8. As long as the first row of that result
  has no column named \<^verbatim>\<open>hasOwnProperty\<close>, the attempt is inconclusive exactly when it gave
  rows and none of the three candidate headers is a key of the first row, or gave no rows
  and at least one parse error. When it is inconclusive or rejected, the same file is
  parsed once more as ISO-8859-1 and the outcome of that second call is the result,
  whatever it is; otherwise UTF-8 is the only call and its result is used.
\<close>

theorem selectResults_fallback:
  assumes "case parseWithEncoding f (js ''UTF-8'') of
             Rejected e \<Rightarrow> True
           | Resolved results \<Rightarrow> \<not> methodShadowed (data results)"
  shows "selectResults parseWithEncoding f =
     (if (case parseWithEncoding f (js ''UTF-8'') of
            Rejected e \<Rightarrow> True
          | Resolved results \<Rightarrow> primaryInconclusive results)
      then ([(f, js ''UTF-8''), (f, js ''ISO-8859-1'')],
            case parseWithEncoding f (js ''ISO-8859-1'') of
              Rejected e \<Rightarrow> Inl e
            | Resolved results \<Rightarrow> Inr results)
      else ([(f, js ''UTF-8'')],
            case parseWithEncoding f (js ''UTF-8'') of
              Rejected e \<Rightarrow> Inl e
            | Resolved results \<Rightarrow> Inr results))"
  using assms
  by (cases "parseWithEncoding f utf8")
     (simp_all add: selectResults_cases fallbackParse_def utf8_def latin1_def)

text \<open>
  A primary result whose header is none of the candidates: both encodings are tried, the
  second result is used.
\<close>

theorem selectResults_fallback_witness:
  "selectResults parseMojibake someFile
   = ([(someFile, js ''UTF-8''), (someFile, js ''ISO-8859-1'')], Inr oneRow)"
  using selectResults_fallback [of parseMojibake someFile]
  by (simp add: parseMojibake_def primaryInconclusive_def methodShadowed_def mojibake_def
      possibleColumnNames_def ownKey_def utf8_def latin1_def js_def)

section \<open>Grouping column\<close>

lemma missingColumnMessage_text:
  "missingColumnMessage =
   js ''CSV must contain one of the following columns: 'Nome da operadora:', 'Nome do restaurante:', 'Nome da empresa:'' @ [apostrophe]"
  by (simp add: missingColumnMessage_def expectedColumnsString_def possibleColumnNames_def js_def
      apostrophe_def)

text \<open>
  C6, as stated, fails. A chosen result without rows and with a parse error makes the
  operation fail with the message of the parse error, not with the message that lists
  the columns. And on a first row that has a column named \<^verbatim>\<open>hasOwnProperty\<close> beside
  \<^verbatim>\<open>Nome da operadora:\<close>, the lookup returns no match: the call of the cell text throws.
\<close>

theorem missing_column_message_not_always:
  "processResults unparseCount \<lparr>data = [], errors = [tooFewFields]\<rparr> =
     Inl (Error (js ''Error parsing CSV file on line 12: Too few fields. Please check the file format.''))
   \<and> ownKey shadowRow (js ''Nome da operadora:'')
   \<and> findGroupingColumn [shadowRow, rowB] = Inl TypeError"
  by (simp add: processResults_def parseErrorMessage_def tooFewFields_def rowToString_def
      numberToString.simps findGroupingColumn_def possibleColumnNames_def hasOwnProperty_def
      ownKey_def shadowRow_def operadora_def js_def)

text \<open>
  C6, amended. As long as the first row has no column named \<^verbatim>\<open>hasOwnProperty\<close>: the
  grouping column is the first of \<^verbatim>\<open>Nome da operadora:\<close>, \<^verbatim>\<open>Nome do restaurante:\<close>,
  \<^verbatim>\<open>Nome da empresa:\<close>, in that order, that is a key of the first row, and later rows are
  not looked at. When there is no row, or none of the three is a key of the first row,
  the resolution throws the message that lists the three names; the operation on the
  chosen result fails with exactly that message, unless the result has no rows and
  carries parse errors.
\<close>

theorem findGroupingColumn_priority:
  assumes "\<not> methodShadowed rows"
  shows "findGroupingColumn rows =
           Inr (case rows of
                  [] \<Rightarrow> None
                | firstRow # _ \<Rightarrow>
                    if ownKey firstRow (js ''Nome da operadora:'')
                    then Some (js ''Nome da operadora:'')
                    else if ownKey firstRow (js ''Nome do restaurante:'')
                    then Some (js ''Nome do restaurante:'')
                    else if ownKey firstRow (js ''Nome da empresa:'')
                    then Some (js ''Nome da empresa:'')
                    else None)
   \<and> ((case rows of
          [] \<Rightarrow> True
        | firstRow # _ \<Rightarrow> \<forall>c\<in>set possibleColumnNames. \<not> ownKey firstRow c)
       \<longrightarrow> requireGroupingColumn rows =
             Inl (Error (js ''CSV must contain one of the following columns: 'Nome da operadora:', 'Nome do restaurante:', 'Nome da empresa:'' @ [apostrophe]))
           \<and> splitRows unparse rows =
             Inl (Error (js ''CSV must contain one of the following columns: 'Nome da operadora:', 'Nome do restaurante:', 'Nome da empresa:'' @ [apostrophe]))
           \<and> (rows \<noteq> [] \<or> errs = [] \<longrightarrow>
                processResults unparse \<lparr>data = rows, errors = errs\<rparr> =
                Inl (Error (js ''CSV must contain one of the following columns: 'Nome da operadora:', 'Nome do restaurante:', 'Nome da empresa:'' @ [apostrophe]))))"
proof (intro conjI impI)
  show "findGroupingColumn rows =
           Inr (case rows of
                  [] \<Rightarrow> None
                | firstRow # _ \<Rightarrow>
                    if ownKey firstRow (js ''Nome da operadora:'')
                    then Some (js ''Nome da operadora:'')
                    else if ownKey firstRow (js ''Nome do restaurante:'')
                    then Some (js ''Nome do restaurante:'')
                    else if ownKey firstRow (js ''Nome da empresa:'')
                    then Some (js ''Nome da empresa:'')
                    else None)"
    using assms
    by (simp add: findGroupingColumn_inherited possibleColumnNames_def split: list.splits)
  assume "case rows of [] \<Rightarrow> True
          | firstRow # _ \<Rightarrow> \<forall>c\<in>set possibleColumnNames. \<not> ownKey firstRow c"
  then have none: "findGroupingColumn rows = Inr None"
    using assms by (simp add: findGroupingColumn_None list_all_iff split: list.splits)
  then show req: "requireGroupingColumn rows =
             Inl (Error (js ''CSV must contain one of the following columns: 'Nome da operadora:', 'Nome do restaurante:', 'Nome da empresa:'' @ [apostrophe]))"
    by (simp add: requireGroupingColumn_def missingColumnMessage_text)
  then show split: "splitRows unparse rows =
             Inl (Error (js ''CSV must contain one of the following columns: 'Nome da operadora:', 'Nome do restaurante:', 'Nome da empresa:'' @ [apostrophe]))"
    by (simp add: splitRows_def)
  assume "rows \<noteq> [] \<or> errs = []"
  then have "processResults unparse \<lparr>data = rows, errors = errs\<rparr> = splitRows unparse rows"
    by (cases errs) (auto simp: processResults_def)
  with split show "processResults unparse \<lparr>data = rows, errors = errs\<rparr> =
             Inl (Error (js ''CSV must contain one of the following columns: 'Nome da operadora:', 'Nome do restaurante:', 'Nome da empresa:'' @ [apostrophe]))"
    by simp
qed

text \<open>
  Two rows, the first with the one column \<^verbatim>\<open>Valor\<close>, and a parse error beside them: the
  operation fails with the message that lists the columns.
\<close>

theorem findGroupingColumn_priority_witness:
  "processResults unparseCount \<lparr>data = [rowShort, rowB], errors = [tooFewFields]\<rparr> =
   Inl (Error (js ''CSV must contain one of the following columns: 'Nome da operadora:', 'Nome do restaurante:', 'Nome da empresa:'' @ [apostrophe]))"
  using findGroupingColumn_priority [of "[rowShort, rowB]" unparseCount "[tooFewFields]"]
  by (simp add: methodShadowed_def possibleColumnNames_def ownKey_def rowShort_def js_def)

section \<open>Parse errors of the chosen result\<close>

text \<open>
  C7. When the chosen parse result carries parse errors and has rows, the errors change
  nothing: the rows are split as they would be without the errors. When it has no rows,
  the operation fails with
  \<^verbatim>\<open>Error parsing CSV file on line {row}: {message}. Please check the file format.\<close>,
  with the row index and the message of the first error.
\<close>

theorem parse_errors_fatal_without_rows:
  "errors results = firstError # rest \<Longrightarrow>
     (data results \<noteq> [] \<longrightarrow>
        processResults unparse results = splitRows unparse (data results)
        \<and> processResults unparse results = processResults unparse (results\<lparr>errors := []\<rparr>))
   \<and> (data results = [] \<longrightarrow>
        processResults unparse results =
        Inl (Error (js ''Error parsing CSV file on line '' @ rowToString (row firstError)
                    @ js '': '' @ message firstError @ js ''. Please check the file format.'')))"
  by (simp add: processResults_def parseErrorMessage_def)

text \<open>
  An error on row 12 without rows is fatal; the same error beside one row of group
  \<^verbatim>\<open>B\<close> is not, and the file \<^verbatim>\<open>B.csv\<close> is made.
\<close>

theorem parse_errors_fatal_without_rows_witness:
  "processResults unparseCount \<lparr>data = [], errors = [tooFewFields]\<rparr> =
     Inl (Error (js ''Error parsing CSV file on line 12: Too few fields. Please check the file format.''))
   \<and> processResults unparseCount \<lparr>data = [rowB], errors = [tooFewFields]\<rparr> =
     Inr [\<lparr>filename = js ''B.csv'', content = js ''1''\<rparr>]"
proof
  show "processResults unparseCount \<lparr>data = [], errors = [tooFewFields]\<rparr> =
     Inl (Error (js ''Error parsing CSV file on line 12: Too few fields. Please check the file format.''))"
    using parse_errors_fatal_without_rows
      [of "\<lparr>data = [], errors = [tooFewFields]\<rparr>" tooFewFields "[]" unparseCount]
    by (simp add: tooFewFields_def rowToString_def numberToString.simps js_def)
  have "splitRows unparseCount [rowB] = Inr [\<lparr>filename = js ''B.csv'', content = js ''1''\<rparr>]"
    by (simp add: splitRows_def requireGroupingColumn_def findGroupingColumn_def
        possibleColumnNames_def hasOwnProperty_def ownKey_def groupEntries_def groupedByValue_def
        reducer_def getProperty_def pushRow_def objectEntries_def objectPrototypeKeys_def
        makeFiles_def unparseCount_def numberToString.simps sanitizeFilename_unfold
        csvExtension_def class_defs rowB_def eval_defs)
  then show "processResults unparseCount \<lparr>data = [rowB], errors = [tooFewFields]\<rparr> =
     Inr [\<lparr>filename = js ''B.csv'', content = js ''1''\<rparr>]"
    using parse_errors_fatal_without_rows
      [of "\<lparr>data = [rowB], errors = [tooFewFields]\<rparr>" tooFewFields "[]" unparseCount]
    by simp
qed

section \<open>Component state\<close>

text \<open>
  C8. When the archive cannot be made for a non-empty list of generated files, the error
  becomes \<^verbatim>\<open>Could not create the ZIP file. Please try downloading files individually.\<close>,
  the generated files stay as they were, and nothing else changes but the busy flag,
  which is off at the end.
\<close>

theorem downloadAllAsZip_failure:
  "generatedFiles s \<noteq> [] \<Longrightarrow>
     error (downloadAllAsZip ZipThrows s) =
       Some (js ''Could not create the ZIP file. Please try downloading files individually.'')
     \<and> generatedFiles (downloadAllAsZip ZipThrows s) = generatedFiles s
     \<and> sourceFile (downloadAllAsZip ZipThrows s) = sourceFile s
     \<and> isLoading (downloadAllAsZip ZipThrows s) = isLoading s
     \<and> isZipping (downloadAllAsZip ZipThrows s) = False
     \<and> downloadAllAsZip ZipThrows s = s\<lparr>isZipping := False, error := Some zipErrorMessage\<rparr>"
  by (simp add: downloadAllAsZip_def zipErrorMessage_def)

text \<open>The state after a run that made one file, and the archive failing on it.\<close>

theorem downloadAllAsZip_failure_witness:
  "downloadAllAsZip ZipThrows afterRun =
   \<lparr>sourceFile = Some csvFile, generatedFiles = [fileA], isLoading = False, isZipping = False,
    error = Some (js ''Could not create the ZIP file. Please try downloading files individually.'')\<rparr>"
  using downloadAllAsZip_failure [of afterRun]
  by (simp add: afterRun_def zipErrorMessage_def)

text \<open>
  C10. Selecting a file of a valid CSV type clears the error and the list of generated
  files and stores the file; nothing is processed by the selection. Selecting a file of
  another type sets the error \<^verbatim>\<open>Invalid file type. Please upload a CSV file.\<close> and clears
  the selected file, and the list of generated files stays as it was.
\<close>

theorem handleFileSelect_effects:
  "(isCsvFile f \<longrightarrow>
      handleFileSelect f s = s\<lparr>error := None, generatedFiles := [], sourceFile := Some f\<rparr>)
   \<and> (\<not> isCsvFile f \<longrightarrow>
      handleFileSelect f s =
        s\<lparr>error := Some (js ''Invalid file type. Please upload a CSV file.''), sourceFile := None\<rparr>
      \<and> generatedFiles (handleFileSelect f s) = generatedFiles s)"
  by (simp add: handleFileSelect_def isCsvFile_def invalidFileTypeMessage_def)

text \<open>
  \<^verbatim>\<open>Dados.CSV\<close> without a media type is accepted, \<^verbatim>\<open>foto.png\<close> is not; both are
  selected in a state with one generated file and an old error.
\<close>

theorem handleFileSelect_effects_witness:
  "handleFileSelect csvFile afterRun =
     \<lparr>sourceFile = Some csvFile, generatedFiles = [], isLoading = False, isZipping = False,
      error = None\<rparr>
   \<and> handleFileSelect pngFile afterRun =
     \<lparr>sourceFile = None, generatedFiles = [fileA], isLoading = False, isZipping = False,
      error = Some (js ''Invalid file type. Please upload a CSV file.'')\<rparr>"
  using handleFileSelect_effects [of csvFile afterRun] handleFileSelect_effects [of pngFile afterRun]
  by (simp add: isCsvFile_def csvFile_def pngFile_def afterRun_def endsWith_def toLowerCase_def
      js_def)

end
